theory Spec2Isabelle
  imports Main "HOL-Library.Multiset" "HOL-Library.Product_Lexorder"
begin

section \<open>JavaScript values\<close>

text \<open>
  The values \<^verbatim>\<open>response.json()\<close> can produce. Numbers are restricted to integers
  (fractions and exponents are outside this development). An object is the list of its
  own properties; a property read takes the first binding of the key.
\<close>

datatype jsval =
    JUndefined
  | JNull
  | JBool bool
  | JNum int
  | JStr string
  | JArr "jsval list"
  | JObj "(string \<times> jsval) list"

text \<open>ToBoolean: what \<^verbatim>\<open>!v\<close>, \<^verbatim>\<open>v || w\<close> and \<^verbatim>\<open>v && w\<close> test.\<close>

fun truthy :: "jsval \<Rightarrow> bool" where
  "truthy JUndefined = False"
| "truthy JNull = False"
| "truthy (JBool b) = b"
| "truthy (JNum n) = (n \<noteq> 0)"
| "truthy (JStr s) = (s \<noteq> [])"
| "truthy (JArr _) = True"
| "truthy (JObj _) = True"

text \<open>
  Errors as values. \<open>Error v\<close> is \<^verbatim>\<open>new Error(v)\<close>: its message is the string form of
  \<open>v\<close>, which for a string \<open>v\<close> is \<open>v\<close> itself. The other constructors are the
  rejections the platform produces; their message texts are engine specific and not
  recorded.
\<close>

datatype js_error =
    Error jsval
  | TypeError
  | SyntaxError
  | DOMException string

text \<open>
  \<^verbatim>\<open>errorData.error\<close>: reading a property of \<^verbatim>\<open>null\<close> or \<^verbatim>\<open>undefined\<close> throws a
  TypeError; primitives and arrays have no property of that name.
\<close>

fun prop_error :: "jsval \<Rightarrow> js_error + jsval" where
  "prop_error JUndefined = Inl TypeError"
| "prop_error JNull = Inl TypeError"
| "prop_error (JObj kvs) = (case map_of kvs ''error'' of Some v \<Rightarrow> Inr v | None \<Rightarrow> Inr JUndefined)"
| "prop_error _ = Inr JUndefined"

section \<open>services/api.js\<close>

text \<open>
  \<^verbatim>\<open>
  const API_BASE_URL = process.env.NODE_ENV === 'production'
    ? 'https://functionalgroupanalyzer.onrender.com/api'
    : 'http://localhost:5000/api';
  \<close>
\<close>

definition API_BASE_URL :: "string \<Rightarrow> string" where
  "API_BASE_URL node_env =
     (if node_env = ''production''
      then ''https://functionalgroupanalyzer.onrender.com/api''
      else ''http://localhost:5000/api'')"

text \<open>
  The second argument of \<^verbatim>\<open>fetch\<close>. The body is \<^verbatim>\<open>JSON.stringify(moleculeData)\<close>; it
  is kept as the data it serialises.
\<close>

record 'd request_init =
  http_method :: string
  headers :: "(string \<times> string) list"
  body :: 'd

text \<open>
  What \<^verbatim>\<open>await fetch(...)\<close> resolves to, as far as \<^verbatim>\<open>analyzeMolecule\<close> looks at it:
  the \<^verbatim>\<open>ok\<close> flag (status in 200..299) and the outcome of \<^verbatim>\<open>await response.json()\<close>,
  which rejects when the body is not JSON.
\<close>

record response =
  ok :: bool
  json :: "js_error + jsval"

text \<open>A line written by \<^verbatim>\<open>console.error(label, error)\<close>.\<close>

type_synonym console = "(string \<times> js_error) list"

text \<open>
  \<^verbatim>\<open>
  export const analyzeMolecule = async (moleculeData) => {
    try {
      const response = await fetch(`${API_BASE_URL}/analyze`, {
        method: 'POST',
        headers: { 'Content-Type': 'application/json' },
        body: JSON.stringify(moleculeData)
      });
      if (!response.ok) {
        const errorData = await response.json();
        throw new Error(errorData.error || 'Failed to analyze molecule');
      }
      const result = await response.json();
      return result;
    } catch (error) {
      console.error('Error analyzing molecule:', error);
      throw new Error('Failed to analyze molecule. Please try again.');
    }
  };
  \<close>
  The network and the server are the parameter \<open>fetch\<close>: it rejects (\<open>Inl\<close>) or
  resolves with a response. The \<^verbatim>\<open>catch\<close> block is \<open>caught\<close>.
\<close>

definition caught :: "js_error \<Rightarrow> console \<times> (js_error + jsval)" where
  "caught error =
     ([(''Error analyzing molecule:'', error)],
      Inl (Error (JStr ''Failed to analyze molecule. Please try again.'')))"

definition exchange ::
  "string \<Rightarrow> (string \<Rightarrow> 'd request_init \<Rightarrow> js_error + response) \<Rightarrow> 'd
     \<Rightarrow> js_error + response" where
  "exchange node_env fetch moleculeData =
     fetch (API_BASE_URL node_env @ ''/analyze'')
       \<lparr>http_method = ''POST'',
        headers = [(''Content-Type'', ''application/json'')],
        body = moleculeData\<rparr>"

definition analyzeMolecule ::
  "string \<Rightarrow> (string \<Rightarrow> 'd request_init \<Rightarrow> js_error + response) \<Rightarrow> 'd
     \<Rightarrow> console \<times> (js_error + jsval)" where
  "analyzeMolecule node_env fetch moleculeData =
     (case exchange node_env fetch moleculeData of
        Inl error \<Rightarrow> caught error
      | Inr response \<Rightarrow>
          if \<not> ok response then
            (case json response of
               Inl error \<Rightarrow> caught error
             | Inr errorData \<Rightarrow>
                 (case prop_error errorData of
                    Inl error \<Rightarrow> caught error
                  | Inr detail \<Rightarrow>
                      caught (Error (if truthy detail then detail
                                     else JStr ''Failed to analyze molecule''))))
          else
            (case json response of
               Inl error \<Rightarrow> caught error
             | Inr result \<Rightarrow> ([], Inr result)))"

section \<open>components/MoleculeInput.js\<close>

text \<open>
  The text of the textarea is a JavaScript string: a sequence of UTF-16 code units,
  here natural numbers. \<^verbatim>\<open>String.prototype.trim\<close> removes the WhiteSpace and
  LineTerminator code points from both ends: TAB, LF, VT, FF, CR, SPACE, NBSP, U+1680,
  U+2000 to U+200A, U+2028, U+2029, U+202F, U+205F, U+3000 and U+FEFF. Each is a single
  code unit.
\<close>

definition is_whitespace :: "nat \<Rightarrow> bool" where
  "is_whitespace u =
     (u \<in> set [9, 10, 11, 12, 13, 32, 160, 5760, 8232, 8233, 8239, 8287, 12288, 65279]
      \<or> (8192 \<le> u \<and> u \<le> 8202))"

definition trim :: "nat list \<Rightarrow> nat list" where
  "trim s = rev (dropWhile is_whitespace (rev (dropWhile is_whitespace s)))"

text \<open>The code units of a literal of the source (ASCII).\<close>

definition units :: "string \<Rightarrow> nat list" where
  "units s = map of_char s"

text \<open>
  \<^verbatim>\<open>
  const examples = [
    { name: 'Aspirin', smiles: 'CC(=O)OC1=CC=CC=C1C(=O)O' },
    { name: 'Caffeine', smiles: 'CN1C=NC2=C1C(=O)N(C(=O)N2C)C' },
    { name: 'Ethanol', smiles: 'CCO' },
    { name: 'Benzene', smiles: 'C1=CC=CC=C1' },
    { name: 'Acetic Acid', smiles: 'CC(=O)O' }
  ];
  \<close>
\<close>

definition examples_list :: "(string \<times> string) list" where
  "examples_list =
     [(''Aspirin'', ''CC(=O)OC1=CC=CC=C1C(=O)O''),
      (''Caffeine'', ''CN1C=NC2=C1C(=O)N(C(=O)N2C)C''),
      (''Ethanol'', ''CCO''),
      (''Benzene'', ''C1=CC=CC=C1''),
      (''Acetic Acid'', ''CC(=O)O'')]"

text \<open>The two \<^verbatim>\<open>useState\<close> cells of the component, and the object given to \<^verbatim>\<open>onAnalyze\<close>.\<close>

record molecule_input =
  inputValue :: "nat list"
  inputType :: string

record molecule_data =
  input :: "nat list"
  type :: string


text \<open>The \<^verbatim>\<open>option\<close> elements of the \<^verbatim>\<open>select\<close>, and their \<^verbatim>\<open>value\<close> attributes.\<close>

datatype select_option = SMILES | SMARTS | MOL_File

fun option_value :: "select_option \<Rightarrow> string" where
  "option_value SMILES = ''smiles''"
| "option_value SMARTS = ''smarts''"
| "option_value MOL_File = ''mol_file''"

text \<open>What a handler does besides updating the state.\<close>

datatype effect = Alert string | OnAnalyze molecule_data

text \<open>
  \<^verbatim>\<open>
  const handleAnalyze = () => {
    if (!inputValue.trim()) {
      alert('Please enter a molecule structure');
      return;
    }
    onAnalyze({ input: inputValue.trim(), type: inputType });
  };
  \<close>
  The empty string is the only falsy string.
\<close>

definition handleAnalyze :: "molecule_input \<Rightarrow> effect list" where
  "handleAnalyze st =
     (if trim (inputValue st) = [] then [Alert ''Please enter a molecule structure'']
      else [OnAnalyze \<lparr>input = trim (inputValue st), type = inputType st\<rparr>])"

text \<open>\<^verbatim>\<open><AnalyzeButton onClick={handleAnalyze} disabled={!inputValue.trim()}>\<close>\<close>

definition analyze_disabled :: "molecule_input \<Rightarrow> bool" where
  "analyze_disabled st = (trim (inputValue st) = [])"

text \<open>
  The events the rendered component reacts to: typing in the textarea, choosing an option
  of the select, the \<^verbatim>\<open>onload\<close> of the file reader started by \<^verbatim>\<open>handleFileUpload\<close>, a
  click on the example button with the given index (the buttons are rendered only while
  the type is \<^verbatim>\<open>'smiles'\<close>), and a click on the analyze button (a disabled button
  dispatches no click).
\<close>

datatype ui_event =
    TextAreaChange "nat list"
  | SelectChange select_option
  | FileLoaded "nat list"
  | ExampleClick nat
  | AnalyzeClick

fun handle_event :: "molecule_input \<Rightarrow> ui_event \<Rightarrow> molecule_input \<times> effect list" where
  "handle_event st (TextAreaChange v) = (st\<lparr>inputValue := v\<rparr>, [])"
| "handle_event st (SelectChange opt) = (st\<lparr>inputType := option_value opt\<rparr>, [])"
| "handle_event st (FileLoaded content) =
     (st\<lparr>inputValue := content, inputType := ''mol_file''\<rparr>, [])"
| "handle_event st (ExampleClick i) =
     (if inputType st = ''smiles'' \<and> i < length examples_list
      then (st\<lparr>inputValue := units (snd (examples_list ! i)), inputType := ''smiles''\<rparr>, [])
      else (st, []))"
| "handle_event st AnalyzeClick =
     (if analyze_disabled st then (st, []) else (st, handleAnalyze st))"

text \<open>A session: the events in order, the effects collected.\<close>

fun run :: "molecule_input \<Rightarrow> ui_event list \<Rightarrow> molecule_input \<times> effect list" where
  "run st [] = (st, [])"
| "run st (ev # evs) =
     (case handle_event st ev of
        (st', out) \<Rightarrow> (case run st' evs of (st'', outs) \<Rightarrow> (st'', out @ outs)))"





section \<open>components/FunctionalGroupResults.js\<close>

text \<open>
  A property of an object received from the server is missing (\<^verbatim>\<open>undefined\<close>), \<^verbatim>\<open>null\<close>,
  or holds a value. A value has the type the component uses it at: text is a string, a
  list of labels an array of strings, \<^verbatim>\<open>groups_data\<close> an object of group objects,
  \<^verbatim>\<open>individual_images\<close> an object of strings.
\<close>

datatype 'a field = Undefined | Null | Val 'a

text \<open>The properties the card reads of a group.\<close>

record group =
  name :: "string field"
  description :: "string field"
  categories :: "string list field"
  subcategories :: "string list field"
  reactivity :: "string field"
  chebi_id :: "string field"
  examples :: "string list field"
  common_reactions :: "string list field"
  chebi_description :: "string field"
  smarts :: "string field"
  simplified :: "string field"

text \<open>
  The properties \<^verbatim>\<open>const { matches, groups_data, image, individual_images } = result\<close>
  takes (\<^verbatim>\<open>image\<close> is the field \<open>image_data\<close>). Whatever else the object carries is
  the extension of the record.
\<close>

record report =
  matches :: "string list field"
  groups_data :: "(string \<times> group) list field"
  image_data :: "string field"
  individual_images :: "(string \<times> string) list field"

text \<open>
  The element tree a component returns: the component or tag, the properties that carry
  data (\<^verbatim>\<open>key\<close> and inline \<^verbatim>\<open>style\<close> are left out), and the children React
  mounts. A child that is \<^verbatim>\<open>false\<close>, \<^verbatim>\<open>null\<close>, \<^verbatim>\<open>undefined\<close> or the empty string
  mounts nothing.
\<close>

datatype node = Text string | Element string "(string \<times> string) list" "node list"

definition text_child :: "string \<Rightarrow> node list" where
  "text_child s = (if s = [] then [] else [Text s])"

fun field_child :: "string field \<Rightarrow> node list" where
  "field_child (Val s) = text_child s"
| "field_child _ = []"

text \<open>\<^verbatim>\<open>f || d\<close> for a string property \<open>f\<close>.\<close>

fun or_default :: "string field \<Rightarrow> string \<Rightarrow> string" where
  "or_default (Val s) d = (if s = [] then d else s)"
| "or_default _ d = d"

text \<open>A string property inside a template literal.\<close>

fun template :: "string field \<Rightarrow> string" where
  "template Undefined = ''undefined''"
| "template Null = ''null''"
| "template (Val s) = s"

text \<open>\<^verbatim>\<open>s.split('/')\<close>, never empty, and \<^verbatim>\<open>xs.join(sep)\<close> on strings.\<close>

fun split :: "char \<Rightarrow> string \<Rightarrow> string list" where
  "split c [] = [[]]"
| "split c (x # xs) =
     (if x = c then [] # split c xs
      else (case split c xs of [] \<Rightarrow> [[x]] | y # ys \<Rightarrow> (x # y) # ys))"

fun join :: "string \<Rightarrow> string list \<Rightarrow> string" where
  "join sep [] = []"
| "join sep [x] = x"
| "join sep (x # y # ys) = x @ sep @ join sep (y # ys)"

text \<open>A number as React prints it (decimal).\<close>

function string_of_nat :: "nat \<Rightarrow> string" where
  "string_of_nat n =
     (if n < 10 then [''0123456789'' ! n]
      else string_of_nat (n div 10) @ [''0123456789'' ! (n mod 10)])"
  by pat_completeness auto
termination
  by (relation "measure id") auto

declare string_of_nat.simps [simp del]

text \<open>
  \<^verbatim>\<open>xs && xs.length > 0 && (<GroupInfo> label <div>{xs.map(...)}</div> </GroupInfo>)\<close>
\<close>

fun tag_block :: "string \<Rightarrow> string list field \<Rightarrow> node list" where
  "tag_block label (Val xs) =
     (if xs \<noteq> [] then
        [Element ''GroupInfo'' []
           [Element ''InfoLabel'' [] [Text label],
            Element ''div'' [] (map (\<lambda>x. Element ''CategoryTag'' [] (text_child x)) xs)]]
      else [])"
| "tag_block label _ = []"

text \<open>
  \<^verbatim>\<open>{individualImage && (<GroupImage> ... </GroupImage>)}\<close>; the \<^verbatim>\<open>alt\<close> text holds
  \<^verbatim>\<open>group.name\<close>.
\<close>

fun group_image :: "string field \<Rightarrow> string field \<Rightarrow> node list" where
  "group_image nm (Val img) =
     (if img \<noteq> [] then
        [Element ''GroupImage'' []
           [Element ''GroupImageTitle'' [] [Text ''Structure in Molecule''],
            Element ''GroupImageImg''
              [(''src'', ''data:image/png;base64,'' @ img),
               (''alt'', template nm @ '' highlighted in molecule'')] []]]
      else [])"
| "group_image nm _ = []"

text \<open>
  \<^verbatim>\<open>{group.chebi_id && group.chebi_id !== 'Not available' && (<GroupInfo> ...
     <ChEBILink href={group.chebi_id} ...>{group.chebi_id.split('/').pop()}</ChEBILink>
   </GroupInfo>)}\<close>
\<close>

fun chebi_link :: "string field \<Rightarrow> node list" where
  "chebi_link (Val s) =
     (if s \<noteq> [] \<and> s \<noteq> ''Not available'' then
        [Element ''GroupInfo'' []
           [Element ''InfoLabel'' [] [Text ''ChEBI:''],
            Element ''ChEBILink''
              [(''href'', s), (''target'', ''_blank''), (''rel'', ''noopener noreferrer'')]
              (text_child (last (split CHR ''/'' s)))]]
      else [])"
| "chebi_link _ = []"

text \<open>The blocks shown while \<^verbatim>\<open>showDetails\<close> is set, in the order of the source.\<close>

fun examples_block :: "string list field \<Rightarrow> node list" where
  "examples_block (Val xs) =
     (if xs \<noteq> [] then
        [Element ''GroupInfo'' []
           [Element ''InfoLabel'' [] [Text ''Examples:''],
            Element ''InfoValue'' [] (text_child (join '', '' xs))]]
      else [])"
| "examples_block _ = []"

fun reactions_block :: "string list field \<Rightarrow> node list" where
  "reactions_block (Val xs) =
     (if xs \<noteq> [] then
        [Element ''GroupInfo'' []
           [Element ''InfoLabel'' [] [Text ''Common Reactions:''],
            Element ''ReactionsList'' [] (map (\<lambda>x. Element ''li'' [] (text_child x)) xs)]]
      else [])"
| "reactions_block _ = []"

fun chebi_description_block :: "string field \<Rightarrow> node list" where
  "chebi_description_block (Val s) =
     (if s \<noteq> [] \<and> s \<noteq> ''Not available'' then
        [Element ''GroupInfo'' []
           [Element ''InfoLabel'' [] [Text ''ChEBI Description:''],
            Element ''InfoValue'' [] [Text s]]]
      else [])"
| "chebi_description_block _ = []"

fun pattern_block :: "string \<Rightarrow> string field \<Rightarrow> node list" where
  "pattern_block label (Val s) =
     (if s \<noteq> [] then
        [Element ''div'' []
           [Element ''InfoLabel'' [] [Text label],
            Element ''SmartsPattern'' [] [Text s]]]
      else [])"
| "pattern_block label _ = []"

definition details :: "group \<Rightarrow> node" where
  "details grp =
     Element ''div'' []
       (examples_block (examples grp)
        @ reactions_block (common_reactions grp)
        @ chebi_description_block (chebi_description grp)
        @ pattern_block ''SMARTS Pattern:'' (smarts grp)
        @ pattern_block ''Simplified SMARTS:'' (simplified grp))"

text \<open>
  \<^verbatim>\<open>function FunctionalGroupCard({ group, individualImage })\<close>, with the state cell
  \<^verbatim>\<open>showDetails\<close> as an argument (\<^verbatim>\<open>useState(false)\<close>; the toggle button flips it).
\<close>

definition FunctionalGroupCard :: "group \<Rightarrow> string field \<Rightarrow> bool \<Rightarrow> node" where
  "FunctionalGroupCard grp individualImage showDetails =
     Element ''GroupCard'' []
       ([Element ''GroupName'' [] (field_child (name grp))]
        @ group_image (name grp) individualImage
        @ [Element ''GroupInfo'' []
             [Element ''InfoLabel'' [] [Text ''Description:''],
              Element ''InfoValue'' []
                [Text (or_default (description grp) ''No description available'')]]]
        @ tag_block ''Categories:'' (categories grp)
        @ tag_block ''Subcategories:'' (subcategories grp)
        @ [Element ''GroupInfo'' []
             [Element ''InfoLabel'' [] [Text ''Reactivity:''],
              Element ''InfoValue'' [] [Text (or_default (reactivity grp) ''Unknown'')]]]
        @ chebi_link (chebi_id grp)
        @ [Element ''ToggleButton'' []
             [Text (if showDetails then ''Hide Details'' else ''Show Details'')]]
        @ (if showDetails then [details grp] else []))"

text \<open>
  \<^verbatim>\<open>groups_data[groupName]\<close> and \<^verbatim>\<open>individual_images[groupName]\<close> read a property
  whose name comes from the data. An object parsed from JSON inherits from
  \<^verbatim>\<open>Object.prototype\<close>, so a name that is not an own property may still be found there:
  as a built-in function or, for \<^verbatim>\<open>__proto__\<close>, as the prototype object itself.
\<close>

definition Object_prototype :: "string list" where
  "Object_prototype =
     [''constructor'', ''__defineGetter__'', ''__defineSetter__'', ''hasOwnProperty'',
      ''__lookupGetter__'', ''__lookupSetter__'', ''isPrototypeOf'',
      ''propertyIsEnumerable'', ''toString'', ''valueOf'', ''__proto__'',
      ''toLocaleString'']"

definition no_properties :: group where
  "no_properties =
     \<lparr>name = Undefined, description = Undefined, categories = Undefined,
      subcategories = Undefined, reactivity = Undefined, chebi_id = Undefined,
      examples = Undefined, common_reactions = Undefined, chebi_description = Undefined,
      smarts = Undefined, simplified = Undefined\<rparr>"

text \<open>
  What the card reads of an inherited value: a built-in function has a \<^verbatim>\<open>name\<close> (the
  property name, except that \<^verbatim>\<open>constructor\<close> is the function \<^verbatim>\<open>Object\<close>) and none of
  the other properties; the prototype object has none of them.
\<close>

definition inherited_group :: "string \<Rightarrow> group option" where
  "inherited_group k =
     (if k = ''__proto__'' then Some no_properties
      else if k = ''constructor'' then Some (no_properties\<lparr>name := Val ''Object''\<rparr>)
      else if k \<in> set Object_prototype then Some (no_properties\<lparr>name := Val k\<rparr>)
      else None)"

text \<open>\<^verbatim>\<open>groups_data[groupName] || { name: groupName }\<close>; an object is truthy.\<close>

definition group_or_fallback :: "(string \<times> group) list \<Rightarrow> string \<Rightarrow> group" where
  "group_or_fallback groups groupName =
     (case map_of groups groupName of
        Some g \<Rightarrow> g
      | None \<Rightarrow>
          (case inherited_group groupName of
             Some g \<Rightarrow> g
           | None \<Rightarrow> no_properties\<lparr>name := Val groupName\<rparr>))"

text \<open>
  \<^verbatim>\<open>individual_images && individual_images[groupName]\<close>. The card puts the value in a
  template literal; \<open>fn_text k\<close> is the text the engine prints for the built-in function
  \<^verbatim>\<open>Object.prototype[k]\<close> (its layout is engine specific).
\<close>

definition individual_image ::
  "(string \<Rightarrow> string) \<Rightarrow> (string \<times> string) list field \<Rightarrow> string \<Rightarrow> string field" where
  "individual_image fn_text images groupName =
     (case images of
        Undefined \<Rightarrow> Undefined
      | Null \<Rightarrow> Null
      | Val imgs \<Rightarrow>
          (case map_of imgs groupName of
             Some img \<Rightarrow> Val img
           | None \<Rightarrow>
               if groupName = ''__proto__'' then Val ''[object Object]''
               else if groupName \<in> set Object_prototype then Val (fn_text groupName)
               else Undefined))"

text \<open>The callback of \<^verbatim>\<open>matches.map\<close>; reading a property of a missing \<^verbatim>\<open>groups_data\<close> throws.\<close>

definition card_of ::
  "(string \<Rightarrow> string) \<Rightarrow> (string \<times> group) list field \<Rightarrow> (string \<times> string) list field
     \<Rightarrow> (nat \<Rightarrow> bool) \<Rightarrow> nat \<times> string \<Rightarrow> js_error + node" where
  "card_of fn_text groups images showDetails entry =
     (case entry of (index, groupName) \<Rightarrow>
        (case groups of
           Val gs \<Rightarrow>
             Inr (FunctionalGroupCard (group_or_fallback gs groupName)
                    (individual_image fn_text images groupName) (showDetails index))
         | _ \<Rightarrow> Inl TypeError))"

text \<open>\<^verbatim>\<open>xs.map(f)\<close> for a callback that may throw: the first throw ends the loop.\<close>

fun map_throw :: "('a \<Rightarrow> js_error + 'b) \<Rightarrow> 'a list \<Rightarrow> js_error + 'b list" where
  "map_throw f [] = Inr []"
| "map_throw f (x # xs) =
     (case f x of
        Inl e \<Rightarrow> Inl e
      | Inr y \<Rightarrow> (case map_throw f xs of Inl e \<Rightarrow> Inl e | Inr ys \<Rightarrow> Inr (y # ys)))"

definition no_results :: node where
  "no_results =
     Element ''ResultsContainer'' []
       [Element ''p'' [] [Text ''No analysis results available.'']]"

text \<open>
  \<^verbatim>\<open>Found {matches.length} functional group{matches.length !== 1 ? 's' : ''}
     {matches.length > 0 ? ':' : ' in this molecule.'}\<close>
\<close>

definition summary :: "string list \<Rightarrow> node" where
  "summary ms =
     Element ''Summary'' []
       [Element ''SummaryTitle'' [] [Text ''Analysis Results''],
        Element ''SummaryText'' []
          ([Text ''Found '', Text (string_of_nat (length ms)), Text '' functional group'']
           @ text_child (if length ms \<noteq> 1 then ''s'' else [])
           @ [Text (if length ms > 0 then '':'' else '' in this molecule.'')])]"

text \<open>\<^verbatim>\<open>{image && (<MoleculeVisualization> ... </MoleculeVisualization>)}\<close>\<close>

fun visualization :: "string field \<Rightarrow> node list" where
  "visualization (Val img) =
     (if img \<noteq> [] then
        [Element ''MoleculeVisualization'' []
           [Element ''h3'' []
              [Text ''Molecular Structure with Highlighted Functional Groups''],
            Element ''MoleculeImage''
              [(''src'', ''data:image/png;base64,'' @ img),
               (''alt'', ''Molecule with highlighted functional groups'')] [],
            Element ''p'' [] [Text ''Different colors represent different functional groups'']]]
      else [])"
| "visualization _ = []"

text \<open>
  \<^verbatim>\<open>function FunctionalGroupResults({ result })\<close>. The state cells of the cards are
  the argument \<open>showDetails\<close>, by position; all are \<^verbatim>\<open>false\<close> when the cards mount. An
  array is truthy, also when empty.
\<close>

definition FunctionalGroupResults ::
  "(string \<Rightarrow> string) \<Rightarrow> 'a report_scheme field \<Rightarrow> (nat \<Rightarrow> bool) \<Rightarrow> js_error + node" where
  "FunctionalGroupResults fn_text result showDetails =
     (case result of
        Val r \<Rightarrow>
          (case matches r of
             Val ms \<Rightarrow>
               (case (if length ms > 0
                      then (case map_throw
                                   (card_of fn_text (groups_data r) (individual_images r)
                                      showDetails)
                                   (zip [0..<length ms] ms) of
                              Inl e \<Rightarrow> Inl e
                            | Inr cards \<Rightarrow> Inr [Element ''GroupsGrid'' [] cards])
                      else Inr []) of
                  Inl e \<Rightarrow> Inl e
                | Inr grid \<Rightarrow>
                    Inr (Element ''ResultsContainer'' []
                           ([summary ms] @ visualization (image_data r) @ grid)))
           | _ \<Rightarrow> Inr no_results)
      | _ \<Rightarrow> Inr no_results)"

section \<open>The matching and overlap-resolution engine\<close>

text \<open>
  Modelled from the spec: the backend that serves \<^verbatim>\<open>/api/analyze\<close> (pattern catalog,
  match collection, overlap resolution, result assembly) is not among the sources; the
  definitions of this section follow sections 3 to 6 of the specification. The molecule
  is a value of an arbitrary type \<open>'mol\<close>, seen only by the two collaborators, which
  are parameters: the substructure search and the renderer.
\<close>

text \<open>
  Modelled from the spec: a PatternDefinition, the catalog entry. Its name is the
  primary key; \<open>generic\<close> is the spec's "explicitly marked as generic/subsuming"; the
  descriptive fields are the group object the report carries for the name.
\<close>

record pattern_definition =
  pattern_name :: string
  primary :: string
  fallback :: "string option"
  specificity_rank :: int
  generic :: bool
  metadata :: group

type_synonym catalog = "pattern_definition list"

text \<open>
  Modelled from the spec: a RawMatch, the pattern name and the set of matched atom
  indices.
\<close>

record raw_match =
  pattern :: string
  atoms :: "nat set"

datatype search_error = PatternSyntaxError | PatternTimeout

text \<open>
  Modelled from the spec (4.2): the primary string is tried first; after a syntax
  failure the fallback, when there is one; a pattern whose evaluation fails or times out
  is skipped (\<open>None\<close>) for this request.
\<close>

definition evaluate_pattern ::
  "('mol \<Rightarrow> string \<Rightarrow> search_error + nat list list) \<Rightarrow> 'mol \<Rightarrow> pattern_definition
     \<Rightarrow> nat list list option" where
  "evaluate_pattern search mol p =
     (case search mol (primary p) of
        Inr tuples \<Rightarrow> Some tuples
      | Inl PatternTimeout \<Rightarrow> None
      | Inl PatternSyntaxError \<Rightarrow>
          (case fallback p of
             None \<Rightarrow> None
           | Some s \<Rightarrow> (case search mol s of Inr tuples \<Rightarrow> Some tuples | Inl _ \<Rightarrow> None)))"

text \<open>
  Modelled from the spec (4.2): each tuple becomes its set of indices; tuples with the
  same set give one RawMatch.
\<close>

definition pattern_matches ::
  "('mol \<Rightarrow> string \<Rightarrow> search_error + nat list list) \<Rightarrow> 'mol \<Rightarrow> pattern_definition
     \<Rightarrow> raw_match list" where
  "pattern_matches search mol p =
     (case evaluate_pattern search mol p of
        None \<Rightarrow> []
      | Some tuples \<Rightarrow>
          map (\<lambda>A. \<lparr>pattern = pattern_name p, atoms = A\<rparr>) (remdups (map set tuples)))"

text \<open>
  Modelled from the spec (4.2, 5): every pattern is evaluated on its own and the
  per-pattern lists are merged by appending. \<open>completed\<close> is the list of the catalog's
  patterns in the order in which their evaluations complete; without workers it is the
  catalog itself.
\<close>

definition MatchCollector ::
  "('mol \<Rightarrow> string \<Rightarrow> search_error + nat list list) \<Rightarrow> 'mol \<Rightarrow> pattern_definition list
     \<Rightarrow> raw_match list" where
  "MatchCollector search mol completed = concat (map (pattern_matches search mol) completed)"

text \<open>Modelled from the spec (4.1): lookup by name, and the position in catalog order.\<close>

definition lookup :: "catalog \<Rightarrow> string \<Rightarrow> pattern_definition option" where
  "lookup cat n = find (\<lambda>p. pattern_name p = n) cat"

definition declaration_order :: "catalog \<Rightarrow> string \<Rightarrow> nat" where
  "declaration_order cat n = length (takeWhile (\<lambda>p. pattern_name p \<noteq> n) cat)"

definition rank_of :: "catalog \<Rightarrow> raw_match \<Rightarrow> int" where
  "rank_of cat m = (case lookup cat (pattern m) of Some p \<Rightarrow> specificity_rank p | None \<Rightarrow> 0)"

definition is_generic :: "catalog \<Rightarrow> raw_match \<Rightarrow> bool" where
  "is_generic cat m = (case lookup cat (pattern m) of Some p \<Rightarrow> generic p | None \<Rightarrow> False)"

text \<open>
  Modelled from the spec (4.3), the conflict predicate, as the walk of step 3 uses it:
  \<open>conflict cat m a\<close> says that the match \<open>m\<close> is barred by the match \<open>a\<close>. Two
  matches whose atom sets intersect are in conflict, but for the nesting rule: where one
  set is contained in the other and one pattern is marked generic and has the lower
  specificity rank, the more specific match is allowed beside the generic one and
  suppresses it. So the nesting rule exempts the more specific match \<open>m\<close> from being
  barred by the generic match \<open>a\<close>; the generic match stays barred by the specific one
  ("a generic group never survives alongside a specific group whose atoms it fully
  contains", and the containment tie-break of section 8).
\<close>

definition nesting_permits :: "catalog \<Rightarrow> raw_match \<Rightarrow> raw_match \<Rightarrow> bool" where
  "nesting_permits cat m a =
     ((atoms m \<subseteq> atoms a \<or> atoms a \<subseteq> atoms m)
      \<and> is_generic cat a \<and> rank_of cat a < rank_of cat m)"

definition conflict :: "catalog \<Rightarrow> raw_match \<Rightarrow> raw_match \<Rightarrow> bool" where
  "conflict cat m a = (atoms m \<inter> atoms a \<noteq> {} \<and> \<not> nesting_permits cat m a)"

text \<open>
  Modelled from the spec (4.3, step 1): the priority score, compared lexicographically
  and smallest first: specificity rank descending, then size of the atom set descending,
  then catalog declaration order ascending.
\<close>

definition priority :: "catalog \<Rightarrow> raw_match \<Rightarrow> int \<times> int \<times> nat" where
  "priority cat m = (- rank_of cat m, - int (card (atoms m)), declaration_order cat (pattern m))"

text \<open>
  Modelled from the spec (4.3, step 3): walk the sorted list; a match is admitted unless
  it conflicts with a match admitted before it.
\<close>

fun admit :: "catalog \<Rightarrow> raw_match list \<Rightarrow> raw_match list \<Rightarrow> raw_match list" where
  "admit cat admitted [] = admitted"
| "admit cat admitted (m # ms) =
     admit cat (if list_ex (conflict cat m) admitted then admitted else admitted @ [m]) ms"

text \<open>
  Modelled from the spec (4.3, step 4): the presentation order, by the lowest atom index
  of the set, then by declaration order. The spec gives no lowest index for an empty
  set; it is taken as 0.
\<close>

definition lowest :: "raw_match \<Rightarrow> nat" where
  "lowest m = (if atoms m = {} then 0 else Min (atoms m))"

definition presentation :: "catalog \<Rightarrow> raw_match \<Rightarrow> nat \<times> nat" where
  "presentation cat m = (lowest m, declaration_order cat (pattern m))"

text \<open>
  Modelled from the spec (4.3, steps 2 to 4). Both sorts keep the input order of
  elements with equal keys.
\<close>

definition OverlapResolver :: "catalog \<Rightarrow> raw_match list \<Rightarrow> raw_match list" where
  "OverlapResolver cat raws =
     sort_key (presentation cat) (admit cat [] (sort_key (priority cat) raws))"

text \<open>
  Modelled from the spec (4.4, 6, 7): the renderer receives the molecule and the atom
  sets to highlight, each with its colour, and returns the image or fails (\<open>None\<close>). The
  colour is a function of the pattern name. A failed rendering leaves the image out
  of the report.
\<close>

definition highlights :: "(string \<Rightarrow> string) \<Rightarrow> raw_match list \<Rightarrow> (nat set \<times> string) list" where
  "highlights colour ms = map (\<lambda>m. (atoms m, colour (pattern m))) ms"

definition ResultAssembler ::
  "catalog \<Rightarrow> ('mol \<Rightarrow> (nat set \<times> string) list \<Rightarrow> string option) \<Rightarrow> (string \<Rightarrow> string)
     \<Rightarrow> 'mol \<Rightarrow> raw_match list \<Rightarrow> report" where
  "ResultAssembler cat render colour mol resolved =
     \<lparr>matches = Val (map pattern resolved),
      groups_data =
        Val (List.map_filter
               (\<lambda>n. map_option (\<lambda>p. (n, metadata p)) (lookup cat n))
               (remdups (map pattern resolved))),
      image_data =
        (case render mol (highlights colour resolved) of
           Some img \<Rightarrow> Val img
         | None \<Rightarrow> Undefined),
      individual_images =
        Val (List.map_filter
               (\<lambda>n. map_option (\<lambda>img. (n, img))
                      (render mol (highlights colour (filter (\<lambda>m. pattern m = n) resolved))))
               (remdups (map pattern resolved)))\<rparr>"

text \<open>Modelled from the spec (2, 6): the entry point, for a molecule already parsed.\<close>

definition AnalyzeFunctionalGroups ::
  "catalog \<Rightarrow> ('mol \<Rightarrow> string \<Rightarrow> search_error + nat list list)
     \<Rightarrow> ('mol \<Rightarrow> (nat set \<times> string) list \<Rightarrow> string option) \<Rightarrow> (string \<Rightarrow> string)
     \<Rightarrow> pattern_definition list \<Rightarrow> 'mol \<Rightarrow> report" where
  "AnalyzeFunctionalGroups cat search render colour completed mol =
     ResultAssembler cat render colour mol
       (OverlapResolver cat (MatchCollector search mol completed))"

section \<open>Auxiliary notions for the statements\<close>



text \<open>The cards as they mount: \<^verbatim>\<open>useState(false)\<close>.\<close>

definition details_closed :: "nat \<Rightarrow> bool" where
  "details_closed index = False"

text \<open>The text V8 prints for a built-in function.\<close>

definition v8_text :: "string \<Rightarrow> string" where
  "v8_text k =
     ''function '' @ (if k = ''constructor'' then ''Object'' else k) @ ''() { [native code] }''"

section \<open>Concrete inputs\<close>

text \<open>The request for the example molecule Ethanol of the input form, \<^verbatim>\<open>CCO\<close>.\<close>

definition ethanol_request :: molecule_data where
  "ethanol_request = \<lparr>input = [67, 67, 79], type = ''smiles''\<rparr>"


text \<open>A server that answers 400 with an error message in the body.\<close>

definition server_rejects :: "string \<Rightarrow> molecule_data request_init \<Rightarrow> js_error + response" where
  "server_rejects url init =
     Inr \<lparr>ok = False, json = Inr (JObj [(''error'', JStr ''Invalid SMILES string'')])\<rparr>"


text \<open>A report for ethanol, complete, and the same report without \<^verbatim>\<open>groups_data\<close>.\<close>

definition alcohol :: group where
  "alcohol =
     no_properties
       \<lparr>name := Val ''Alcohol'',
        description := Val ''Hydroxyl group bonded to a saturated carbon'',
        categories := Val [''Oxygen-containing''],
        reactivity := Val ''Nucleophilic''\<rparr>"

definition ethanol_report :: report where
  "ethanol_report =
     \<lparr>matches = Val [''Alcohol''],
      groups_data = Val [(''Alcohol'', alcohol)],
      image_data = Val ''iVBORw0KGgo='',
      individual_images = Val [(''Alcohol'', ''iVBORw0KGgo='')]\<rparr>"

definition incomplete_report :: report where
  "incomplete_report =
     \<lparr>matches = Val [''Alcohol''],
      groups_data = Undefined,
      image_data = Undefined,
      individual_images = Undefined\<rparr>"

text \<open>
  Pyridine, atoms 0 to 5 with the nitrogen at 0: a pattern for the nitrogen, and a
  pattern for the whole ring that is marked generic and has the lower rank.
\<close>

definition pyridine_catalog :: catalog where
  "pyridine_catalog =
     [\<lparr>pattern_name = ''Pyridine nitrogen'', primary = ''[nX2]'', fallback = None,
       specificity_rank = 2, generic = False,
       metadata = no_properties\<lparr>name := Val ''Pyridine nitrogen''\<rparr>\<rparr>,
      \<lparr>pattern_name = ''Aromatic ring'', primary = ''c1ccncc1'', fallback = None,
       specificity_rank = 1, generic = True,
       metadata = no_properties\<lparr>name := Val ''Aromatic ring''\<rparr>\<rparr>]"

definition nitrogen_match :: raw_match where
  "nitrogen_match = \<lparr>pattern = ''Pyridine nitrogen'', atoms = {0}\<rparr>"

definition ring_match :: raw_match where
  "ring_match = \<lparr>pattern = ''Aromatic ring'', atoms = {0, 1, 2, 3, 4, 5}\<rparr>"

text \<open>
  Acetic acid, \<^verbatim>\<open>CC(=O)O\<close>, atoms 0 to 3: the carbonyl pattern matches the atoms 1 and 2,
  the carboxylic acid pattern, of higher rank, all four. The carbonyl pattern is marked
  generic.
\<close>

definition acetic_catalog :: catalog where
  "acetic_catalog =
     [\<lparr>pattern_name = ''Carbonyl'', primary = ''[CX3]=[OX1]'', fallback = None,
       specificity_rank = 1, generic = True,
       metadata = no_properties\<lparr>name := Val ''Carbonyl''\<rparr>\<rparr>,
      \<lparr>pattern_name = ''Carboxylic acid'', primary = ''[CH3][CX3](=O)[OX2H1]'',
       fallback = None, specificity_rank = 2, generic = False,
       metadata = no_properties\<lparr>name := Val ''Carboxylic acid''\<rparr>\<rparr>]"

definition carbonyl_match :: raw_match where
  "carbonyl_match = \<lparr>pattern = ''Carbonyl'', atoms = {1, 2}\<rparr>"

definition acid_match :: raw_match where
  "acid_match = \<lparr>pattern = ''Carboxylic acid'', atoms = {0, 1, 2, 3}\<rparr>"

text \<open>
  The substructure search on acetic acid for the two patterns (the carbonyl is found
  twice, as the tuples (1, 2) and (2, 1)), and on a molecule where nothing matches.
\<close>

definition acetic_search :: "string \<Rightarrow> string \<Rightarrow> search_error + nat list list" where
  "acetic_search mol p =
     (if p = ''[CX3]=[OX1]'' then Inr [[1, 2], [2, 1]]
      else if p = ''[CH3][CX3](=O)[OX2H1]'' then Inr [[0, 1, 2, 3]]
      else Inl PatternSyntaxError)"

definition no_match_search :: "string \<Rightarrow> string \<Rightarrow> search_error + nat list list" where
  "no_match_search mol p = Inr []"

text \<open>A renderer that always fails, and one that returns an image.\<close>

definition render_fails :: "string \<Rightarrow> (nat set \<times> string) list \<Rightarrow> string option" where
  "render_fails mol hs = None"

definition render_png :: "string \<Rightarrow> (nat set \<times> string) list \<Rightarrow> string option" where
  "render_png mol hs = Some ''iVBORw0KGgo=''"

definition palette :: "string \<Rightarrow> string" where
  "palette n = ''#667eea''"

text \<open>The report for a molecule in which nothing was found, and a report with a further property.\<close>

definition empty_report :: report where
  "empty_report =
     \<lparr>matches = Val [], groups_data = Val [], image_data = Undefined,
      individual_images = Val []\<rparr>"

definition extended_report :: "string report_scheme" where
  "extended_report =
     \<lparr>matches = Val [''Alcohol''],
      groups_data = Val [(''Alcohol'', alcohol)],
      image_data = Val ''iVBORw0KGgo='',
      individual_images = Val [(''Alcohol'', ''iVBORw0KGgo='')],
      \<dots> = ''CCO''\<rparr>"

text \<open>A report that names a group the metadata does not hold.\<close>

definition unknown_group_report :: report where
  "unknown_group_report =
     \<lparr>matches = Val [''Alcohol'', ''Ether''],
      groups_data = Val [(''Alcohol'', alcohol)],
      image_data = Undefined,
      individual_images = Undefined\<rparr>"

text \<open>A report without matches and without \<^verbatim>\<open>groups_data\<close>.\<close>

definition bare_empty_report :: report where
  "bare_empty_report =
     \<lparr>matches = Val [], groups_data = Undefined, image_data = Undefined,
      individual_images = Undefined\<rparr>"


section \<open>services/api.js: what the caller of analyzeMolecule receives\<close>

lemma caught_outcome:
  "snd (caught e) = Inl (Error (JStr ''Failed to analyze molecule. Please try again.''))"
  by (simp add: caught_def)

lemma analyzeMolecule_outcome:
  "snd (analyzeMolecule node_env fetch moleculeData) =
     (case exchange node_env fetch moleculeData of
        Inl e \<Rightarrow> Inl (Error (JStr ''Failed to analyze molecule. Please try again.''))
      | Inr r \<Rightarrow>
          (case json r of
             Inl e \<Rightarrow> Inl (Error (JStr ''Failed to analyze molecule. Please try again.''))
           | Inr v \<Rightarrow>
               if ok r then Inr v
               else Inl (Error (JStr ''Failed to analyze molecule. Please try again.''))))"
  by (simp add: analyzeMolecule_def caught_outcome split: sum.splits)

text \<open>
  Claim C8. Whenever \<^verbatim>\<open>analyzeMolecule\<close> fails, the caller receives an Error whose message
  is exactly \<^verbatim>\<open>Failed to analyze molecule. Please try again.\<close>: every error the function
  ends with is this one, and it does end with it whenever \<^verbatim>\<open>fetch\<close> rejects, the status
  is not OK (whatever the body says), or reading the body as JSON rejects. The detail the
  server sent is thrown inside the \<^verbatim>\<open>try\<close> block, caught, and only logged.
\<close>

theorem analyzeMolecule_failure_message:
  "(\<forall>e. snd (analyzeMolecule node_env fetch moleculeData) = Inl e \<longrightarrow>
        e = Error (JStr ''Failed to analyze molecule. Please try again.''))
   \<and> ((\<forall>r. exchange node_env fetch moleculeData = Inr r \<longrightarrow> \<not> ok r \<or> isl (json r)) \<longrightarrow>
        snd (analyzeMolecule node_env fetch moleculeData) =
          Inl (Error (JStr ''Failed to analyze molecule. Please try again.'')))"
  by (auto simp: analyzeMolecule_outcome split: sum.splits)

text \<open>
  The server answers 400 with \<^verbatim>\<open>{"error": "Invalid SMILES string"}\<close>: the message goes to
  the console, the caller gets the fixed one.
\<close>

theorem analyzeMolecule_failure_message_witness:
  "exchange ''production'' server_rejects ethanol_request =
     Inr \<lparr>ok = False, json = Inr (JObj [(''error'', JStr ''Invalid SMILES string'')])\<rparr>
   \<and> analyzeMolecule ''production'' server_rejects ethanol_request =
       ([(''Error analyzing molecule:'', Error (JStr ''Invalid SMILES string''))],
        Inl (Error (JStr ''Failed to analyze molecule. Please try again.'')))"
  using analyzeMolecule_failure_message [of "''production''" server_rejects ethanol_request]
  by (simp add: analyzeMolecule_def exchange_def caught_def server_rejects_def)




section \<open>components/MoleculeInput.js: what is submitted\<close>

lemma trim_decompose:
  "\<exists>pre post. s = pre @ trim s @ post \<and> list_all is_whitespace pre \<and> list_all is_whitespace post"
proof -
  let ?t = "dropWhile is_whitespace s"
  have a: "s = takeWhile is_whitespace s @ ?t" by simp
  have b: "rev ?t = takeWhile is_whitespace (rev ?t) @ dropWhile is_whitespace (rev ?t)" by simp
  have "?t = rev (dropWhile is_whitespace (rev ?t)) @ rev (takeWhile is_whitespace (rev ?t))"
    by (metis b rev_append rev_rev_ident)
  then have c: "?t = trim s @ rev (takeWhile is_whitespace (rev ?t))"
    by (simp add: trim_def)
  have d: "list_all is_whitespace (takeWhile is_whitespace s)"
    by (simp add: list_all_iff) (meson set_takeWhileD)
  have e: "list_all is_whitespace (rev (takeWhile is_whitespace (rev ?t)))"
    by (simp add: list_all_iff) (meson set_takeWhileD)
  from a c have "s = takeWhile is_whitespace s @ trim s @ rev (takeWhile is_whitespace (rev ?t))"
    by metis
  with d e show ?thesis by blast
qed

lemma trim_ends:
  assumes "trim s \<noteq> []"
  shows "\<not> is_whitespace (hd (trim s)) \<and> \<not> is_whitespace (last (trim s))"
proof -
  let ?t = "dropWhile is_whitespace s"
  let ?u = "dropWhile is_whitespace (rev ?t)"
  from assms have u: "?u \<noteq> []" by (simp add: trim_def)
  then have l: "\<not> is_whitespace (hd ?u)" by (rule hd_dropWhile)
  have "last (trim s) = hd ?u" using u by (simp add: trim_def last_rev)
  with l have 1: "\<not> is_whitespace (last (trim s))" by simp
  have t: "?t \<noteq> []"
  proof
    assume a: "?t = []"
    have "?u = []" by (simp only: a rev.simps dropWhile.simps)
    with u show False by blast
  qed
  then have h: "\<not> is_whitespace (hd ?t)" by (rule hd_dropWhile)
  obtain post where p: "?t = trim s @ post"
    by (metis (no_types) append_take_drop_id rev_append rev_rev_ident takeWhile_dropWhile_id trim_def)
  with assms have "hd ?t = hd (trim s)" by (metis hd_append2)
  with h have 2: "\<not> is_whitespace (hd (trim s))" by simp
  from 1 2 show ?thesis by simp
qed

lemma trim_idem: "trim (trim s) = trim s"
proof (cases "trim s = []")
  case True
  show ?thesis unfolding True by (simp add: trim_def)
next
  case False
  from trim_ends[OF False] have h: "\<not> is_whitespace (hd (trim s))"
    and l: "\<not> is_whitespace (last (trim s))" by simp_all
  from h False have 1: "dropWhile is_whitespace (trim s) = trim s"
    by (cases "trim s") auto
  from l False have 2: "dropWhile is_whitespace (rev (trim s)) = rev (trim s)"
    by (cases "rev (trim s)") (auto simp: last_rev hd_rev)
  show ?thesis unfolding trim_def[of "trim s"] 1 2 by simp
qed

lemma handleAnalyze_effects:
  "OnAnalyze d \<in> set (handleAnalyze st) \<Longrightarrow>
     input d = trim (inputValue st) \<and> type d = inputType st \<and> trim (inputValue st) \<noteq> []"
  by (cases "trim (inputValue st) = []") (auto simp: handleAnalyze_def)

lemma handle_event_effects:
  "OnAnalyze d \<in> set (snd (handle_event st ev)) \<Longrightarrow>
     input d = trim (inputValue st) \<and> type d = inputType st \<and> trim (inputValue st) \<noteq> []"
  by (cases ev) (auto dest: handleAnalyze_effects split: if_splits)

lemma run_inputs:
  "OnAnalyze d \<in> set (snd (run st evs)) \<Longrightarrow> input d \<noteq> [] \<and> trim (input d) = input d"
proof (induction evs arbitrary: st)
  case Nil
  then show ?case by simp
next
  case (Cons ev evs)
  obtain st1 out where h: "handle_event st ev = (st1, out)" by (cases "handle_event st ev")
  obtain st2 outs where r: "run st1 evs = (st2, outs)" by (cases "run st1 evs")
  from Cons.prems h r have "OnAnalyze d \<in> set out \<or> OnAnalyze d \<in> set outs" by simp
  then show ?case
  proof
    assume "OnAnalyze d \<in> set out"
    with h have "OnAnalyze d \<in> set (snd (handle_event st ev))" by simp
    from handle_event_effects[OF this] show ?thesis by (simp add: trim_idem)
  next
    assume "OnAnalyze d \<in> set outs"
    with r have "OnAnalyze d \<in> set (snd (run st1 evs))" by simp
    from Cons.IH[OF this] show ?thesis .
  qed
qed

text \<open>
  Claim C10. \<^verbatim>\<open>MoleculeInput\<close> calls \<^verbatim>\<open>onAnalyze\<close> only with non-empty input. While the
  trimmed text is empty the button is disabled, a click does nothing and
  \<^verbatim>\<open>handleAnalyze\<close> only alerts. Otherwise the one effect of \<^verbatim>\<open>handleAnalyze\<close> is the call
  of \<^verbatim>\<open>onAnalyze\<close> with the trimmed text and the selected type. The trimmed text is the
  typed text without a prefix and a suffix of whitespace, and neither begins nor ends
  with whitespace. Over a whole session, every submitted input is non-empty and trimmed.
\<close>

theorem analyze_submits_trimmed_nonempty:
  fixes st :: molecule_input
  shows
    "(trim (inputValue st) = [] \<longrightarrow>
        analyze_disabled st
        \<and> handleAnalyze st = [Alert ''Please enter a molecule structure'']
        \<and> snd (handle_event st AnalyzeClick) = [])
     \<and> (trim (inputValue st) \<noteq> [] \<longrightarrow>
        \<not> analyze_disabled st
        \<and> handleAnalyze st = [OnAnalyze \<lparr>input = trim (inputValue st), type = inputType st\<rparr>]
        \<and> snd (handle_event st AnalyzeClick) =
            [OnAnalyze \<lparr>input = trim (inputValue st), type = inputType st\<rparr>]
        \<and> \<not> is_whitespace (hd (trim (inputValue st)))
        \<and> \<not> is_whitespace (last (trim (inputValue st))))
     \<and> (\<exists>pre post. inputValue st = pre @ trim (inputValue st) @ post
           \<and> list_all is_whitespace pre \<and> list_all is_whitespace post)
     \<and> (\<forall>d. OnAnalyze d \<in> set (snd (run st evs)) \<longrightarrow>
           input d \<noteq> [] \<and> trim (input d) = input d)"
proof (intro conjI impI allI)
  show "\<exists>pre post. inputValue st = pre @ trim (inputValue st) @ post
           \<and> list_all is_whitespace pre \<and> list_all is_whitespace post"
    by (rule trim_decompose)
next
  fix d assume "OnAnalyze d \<in> set (snd (run st evs))"
  then have "input d \<noteq> [] \<and> trim (input d) = input d" by (rule run_inputs)
  then show "input d \<noteq> []" and "trim (input d) = input d" by simp_all
next
  assume e: "trim (inputValue st) = []"
  then show "analyze_disabled st" by (simp add: analyze_disabled_def)
  from e show "handleAnalyze st = [Alert ''Please enter a molecule structure'']"
    by (simp add: handleAnalyze_def)
  from e show "snd (handle_event st AnalyzeClick) = []"
    by (simp add: analyze_disabled_def)
next
  assume n: "trim (inputValue st) \<noteq> []"
  then show "\<not> analyze_disabled st" by (simp add: analyze_disabled_def)
  from n show "handleAnalyze st = [OnAnalyze \<lparr>input = trim (inputValue st), type = inputType st\<rparr>]"
    by (simp add: handleAnalyze_def)
  from n show "snd (handle_event st AnalyzeClick) =
      [OnAnalyze \<lparr>input = trim (inputValue st), type = inputType st\<rparr>]"
    by (simp add: analyze_disabled_def handleAnalyze_def)
  from trim_ends[OF n] show "\<not> is_whitespace (hd (trim (inputValue st)))"
    and "\<not> is_whitespace (last (trim (inputValue st)))" by simp_all
qed

text \<open>
  The text \<^verbatim>\<open>" CCO\n"\<close> is submitted as \<^verbatim>\<open>"CCO"\<close>; a text of a space, a tab and an
  ideographic space is not submitted.
\<close>

theorem analyze_submits_trimmed_nonempty_witness:
  "handleAnalyze \<lparr>inputValue = [32, 67, 67, 79, 10], inputType = ''smiles''\<rparr> =
     [OnAnalyze \<lparr>input = [67, 67, 79], type = ''smiles''\<rparr>]
   \<and> analyze_disabled \<lparr>inputValue = [32, 9, 12288], inputType = ''smiles''\<rparr>
   \<and> handleAnalyze \<lparr>inputValue = [32, 9, 12288], inputType = ''smiles''\<rparr> =
       [Alert ''Please enter a molecule structure'']"
  using analyze_submits_trimmed_nonempty
          [of "\<lparr>inputValue = [32, 67, 67, 79, 10], inputType = ''smiles''\<rparr>" "[]"]
        analyze_submits_trimmed_nonempty
          [of "\<lparr>inputValue = [32, 9, 12288], inputType = ''smiles''\<rparr>" "[]"]
  by (simp add: trim_def is_whitespace_def)















section \<open>components/FunctionalGroupResults.js: what is rendered\<close>



















lemma map_throw_cards:
  "map_throw (card_of fn_text (Val gs) imgs sd) xs =
     Inr (map (\<lambda>(i, n). FunctionalGroupCard (group_or_fallback gs n)
                            (individual_image fn_text imgs n) (sd i)) xs)"
  by (induction xs) (auto simp: card_of_def)

lemma map_throw_missing:
  "groups = Undefined \<or> groups = Null \<Longrightarrow> xs \<noteq> [] \<Longrightarrow>
     map_throw (card_of fn_text groups imgs sd) xs = Inl TypeError"
  by (cases xs) (auto simp: card_of_def)

lemma zip_nonempty: "ms \<noteq> [] \<Longrightarrow> zip [0..<length ms] ms \<noteq> []"
  by (cases ms) (simp_all add: upt_rec)

lemma render_missing_groups:
  assumes "matches r = Val ms" "ms \<noteq> []" "groups_data r = Undefined \<or> groups_data r = Null"
  shows "FunctionalGroupResults fn_text (Val r) sd = Inl TypeError"
  using assms map_throw_missing[OF assms(3) zip_nonempty[OF assms(2)]]
  by (simp add: FunctionalGroupResults_def)

lemma render_with_groups:
  assumes "matches r = Val ms" "groups_data r = Val gs"
  shows "FunctionalGroupResults fn_text (Val r) sd =
     Inr (Element ''ResultsContainer'' []
        ([summary ms] @ visualization (image_data r)
         @ (if ms \<noteq> [] then
              [Element ''GroupsGrid'' []
                 (map (\<lambda>(i, n). FunctionalGroupCard (group_or_fallback gs n)
                          (individual_image fn_text (individual_images r) n) (sd i))
                    (zip [0..<length ms] ms))]
            else [])))"
  using assms by (simp add: FunctionalGroupResults_def map_throw_cards)

lemma render_empty:
  assumes "matches r = Val []"
  shows "FunctionalGroupResults fn_text (Val r) sd =
     Inr (Element ''ResultsContainer'' [] ([summary []] @ visualization (image_data r)))"
  using assms by (simp add: FunctionalGroupResults_def)

lemma render_no_matches:
  assumes "matches r = Undefined \<or> matches r = Null"
  shows "FunctionalGroupResults fn_text (Val r) sd = Inr no_results"
  using assms by (auto simp: FunctionalGroupResults_def)






text \<open>
  Claim C5. A report with an empty list of groups, which is the report for a molecule in
  which nothing matches, is rendered without an error: the view shows the summary
  \<^verbatim>\<open>Found 0 functional groups in this molecule.\<close>, the combined image when the report
  has one, and no group cards.
\<close>

theorem empty_matches_render:
  assumes "matches r = Val []"
  shows "FunctionalGroupResults fn_text (Val r) sd =
     Inr (Element ''ResultsContainer'' []
            (Element ''Summary'' []
               [Element ''SummaryTitle'' [] [Text ''Analysis Results''],
                Element ''SummaryText'' []
                  [Text ''Found '', Text ''0'', Text '' functional group'', Text ''s'',
                   Text '' in this molecule.'']]
             # visualization (image_data r)))"
  using assms
  by (simp add: render_empty summary_def text_child_def string_of_nat.simps)

theorem empty_matches_render_witness:
  "matches empty_report = Val []
   \<and> FunctionalGroupResults v8_text (Val empty_report) details_closed =
     Inr (Element ''ResultsContainer'' []
            [Element ''Summary'' []
               [Element ''SummaryTitle'' [] [Text ''Analysis Results''],
                Element ''SummaryText'' []
                  [Text ''Found '', Text ''0'', Text '' functional group'', Text ''s'',
                   Text '' in this molecule.'']]])"
proof -
  have m: "matches empty_report = Val []" by (simp add: empty_report_def)
  from empty_matches_render[OF m, of v8_text details_closed] m
  show ?thesis by (simp add: empty_report_def)
qed

lemma render_ethanol:
  "FunctionalGroupResults v8_text (Val ethanol_report) details_closed =
     Inr (Element ''ResultsContainer'' []
            [summary [''Alcohol''],
             Element ''MoleculeVisualization'' []
               [Element ''h3'' []
                  [Text ''Molecular Structure with Highlighted Functional Groups''],
                Element ''MoleculeImage''
                  [(''src'', ''data:image/png;base64,iVBORw0KGgo=''),
                   (''alt'', ''Molecule with highlighted functional groups'')] [],
                Element ''p'' []
                  [Text ''Different colors represent different functional groups'']],
             Element ''GroupsGrid'' []
               [FunctionalGroupCard alcohol (Val ''iVBORw0KGgo='') False]])"
  by (simp add: render_with_groups[where ms = "[''Alcohol'']" and gs = "[(''Alcohol'', alcohol)]"]
        ethanol_report_def group_or_fallback_def individual_image_def details_closed_def)

lemma card_shows_image:
  "FunctionalGroupCard alcohol (Val ''iVBORw0KGgo='') False
     \<noteq> FunctionalGroupCard alcohol Undefined False"
  by (simp add: FunctionalGroupCard_def)

lemma card_shows_metadata:
  "FunctionalGroupCard alcohol (Val ''iVBORw0KGgo='') False
     \<noteq> FunctionalGroupCard (no_properties\<lparr>name := Val ''Alcohol''\<rparr>) (Val ''iVBORw0KGgo='') False"
  by (simp add: FunctionalGroupCard_def alcohol_def no_properties_def)

text \<open>
  The four parts of a report, \<^verbatim>\<open>matches\<close>, \<^verbatim>\<open>groups_data\<close>, \<^verbatim>\<open>image\<close> and
  \<^verbatim>\<open>individual_images\<close>, are the properties \<^verbatim>\<open>FunctionalGroupResults\<close> takes of the
  result: what it renders is the same for every object with these four properties,
  whatever else the object holds, and each of the four matters (for the report for
  ethanol, changing one of them changes what is rendered).
\<close>

lemma view_reads_four_parts:
  "FunctionalGroupResults fn_text (Val r) sd =
     FunctionalGroupResults fn_text
       (Val \<lparr>matches = matches r, groups_data = groups_data r, image_data = image_data r,
             individual_images = individual_images r\<rparr>) sd
   \<and> FunctionalGroupResults v8_text (Val (ethanol_report\<lparr>matches := Val []\<rparr>)) details_closed
       \<noteq> FunctionalGroupResults v8_text (Val ethanol_report) details_closed
   \<and> FunctionalGroupResults v8_text (Val (ethanol_report\<lparr>groups_data := Val []\<rparr>)) details_closed
       \<noteq> FunctionalGroupResults v8_text (Val ethanol_report) details_closed
   \<and> FunctionalGroupResults v8_text (Val (ethanol_report\<lparr>image_data := Undefined\<rparr>)) details_closed
       \<noteq> FunctionalGroupResults v8_text (Val ethanol_report) details_closed
   \<and> FunctionalGroupResults v8_text (Val (ethanol_report\<lparr>individual_images := Undefined\<rparr>))
         details_closed
       \<noteq> FunctionalGroupResults v8_text (Val ethanol_report) details_closed"
proof (intro conjI)
  show "FunctionalGroupResults fn_text (Val r) sd =
     FunctionalGroupResults fn_text
       (Val \<lparr>matches = matches r, groups_data = groups_data r, image_data = image_data r,
             individual_images = individual_images r\<rparr>) sd"
    by (cases "matches r") (simp_all add: FunctionalGroupResults_def split: sum.splits)
  show "FunctionalGroupResults v8_text (Val (ethanol_report\<lparr>matches := Val []\<rparr>)) details_closed
       \<noteq> FunctionalGroupResults v8_text (Val ethanol_report) details_closed"
    unfolding render_ethanol by (simp add: render_empty ethanol_report_def)
  show "FunctionalGroupResults v8_text (Val (ethanol_report\<lparr>groups_data := Val []\<rparr>)) details_closed
       \<noteq> FunctionalGroupResults v8_text (Val ethanol_report) details_closed"
    unfolding render_ethanol using card_shows_metadata
    by (simp add: render_with_groups[where ms = "[''Alcohol'']" and gs = "[]"]
          ethanol_report_def group_or_fallback_def inherited_group_def Object_prototype_def
          individual_image_def details_closed_def)
  show "FunctionalGroupResults v8_text (Val (ethanol_report\<lparr>image_data := Undefined\<rparr>)) details_closed
       \<noteq> FunctionalGroupResults v8_text (Val ethanol_report) details_closed"
    unfolding render_ethanol
    by (simp add: render_with_groups[where ms = "[''Alcohol'']" and gs = "[(''Alcohol'', alcohol)]"]
          ethanol_report_def)
  show "FunctionalGroupResults v8_text (Val (ethanol_report\<lparr>individual_images := Undefined\<rparr>))
         details_closed
       \<noteq> FunctionalGroupResults v8_text (Val ethanol_report) details_closed"
    unfolding render_ethanol using card_shows_image
    by (simp add: render_with_groups[where ms = "[''Alcohol'']" and gs = "[(''Alcohol'', alcohol)]"]
          ethanol_report_def group_or_fallback_def individual_image_def details_closed_def)
qed

text \<open>A further property of the result object (here the text \<^verbatim>\<open>CCO\<close>) changes nothing.\<close>

lemma view_ignores_further_property:
  "FunctionalGroupResults v8_text (Val extended_report) details_closed =
     FunctionalGroupResults v8_text (Val ethanol_report) details_closed"
  using view_reads_four_parts[of v8_text extended_report details_closed]
  by (simp add: extended_report_def ethanol_report_def)

text \<open>
  Claim C9, as stated, fails: the component throws on a report with a non-empty
  \<^verbatim>\<open>matches\<close> and no \<^verbatim>\<open>groups_data\<close>, because \<^verbatim>\<open>groups_data[groupName]\<close> reads a
  property of \<^verbatim>\<open>undefined\<close>.
\<close>

theorem render_throws_without_groups_data:
  "FunctionalGroupResults v8_text (Val incomplete_report) details_closed = Inl TypeError"
  by (simp add: render_missing_groups[where ms = "[''Alcohol'']"] incomplete_report_def)

text \<open>
  A name that \<^verbatim>\<open>groups_data\<close> does not hold but \<^verbatim>\<open>Object.prototype\<close> does is not
  rendered from the fallback object either: \<^verbatim>\<open>groups_data['constructor']\<close> is the
  function \<^verbatim>\<open>Object\<close>, and the card shows its name.
\<close>

lemma inherited_name_is_not_fallback:
  "group_or_fallback [] ''constructor'' = no_properties\<lparr>name := Val ''Object''\<rparr>"
  by (simp add: group_or_fallback_def inherited_group_def)

text \<open>
  Claim C9, amended. If the result is \<^verbatim>\<open>null\<close> or \<^verbatim>\<open>undefined\<close>, or has no \<^verbatim>\<open>matches\<close>,
  the component renders the fallback \<^verbatim>\<open>No analysis results available.\<close> and throws
  nothing. If \<^verbatim>\<open>matches\<close> is the empty array, it renders the summary, and the combined
  image if there is one, and throws nothing, also when \<^verbatim>\<open>groups_data\<close> is missing. If
  \<^verbatim>\<open>matches\<close> is not empty and \<^verbatim>\<open>groups_data\<close> is missing, it throws a TypeError. Where
  \<^verbatim>\<open>groups_data\<close> is an object, a matched name that is neither a property of
  \<^verbatim>\<open>groups_data\<close> nor a property name of \<^verbatim>\<open>Object.prototype\<close> gets the card of the
  fallback object that holds only the name. Nothing is said of the cards of the names
  that \<^verbatim>\<open>groups_data\<close> holds.
\<close>

theorem render_fallbacks:
  fixes r :: "'a report_scheme"
  shows
    "FunctionalGroupResults fn_text (Undefined :: 'a report_scheme field) sd = Inr no_results
     \<and> FunctionalGroupResults fn_text (Null :: 'a report_scheme field) sd = Inr no_results
     \<and> (matches r = Undefined \<or> matches r = Null \<longrightarrow>
          FunctionalGroupResults fn_text (Val r) sd = Inr no_results)
     \<and> (matches r = Val [] \<longrightarrow>
          FunctionalGroupResults fn_text (Val r) sd =
            Inr (Element ''ResultsContainer'' [] ([summary []] @ visualization (image_data r))))
     \<and> (matches r = Val ms \<and> ms \<noteq> [] \<and> (groups_data r = Undefined \<or> groups_data r = Null) \<longrightarrow>
          FunctionalGroupResults fn_text (Val r) sd = Inl TypeError)
     \<and> (map_of gs n = None \<and> n \<notin> set Object_prototype \<longrightarrow>
          card_of fn_text (Val gs) imgs sd (i, n) =
            Inr (FunctionalGroupCard (no_properties\<lparr>name := Val n\<rparr>)
                   (individual_image fn_text imgs n) (sd i)))"
proof (intro conjI impI)
  show "FunctionalGroupResults fn_text (Undefined :: 'a report_scheme field) sd = Inr no_results"
    by (simp add: FunctionalGroupResults_def)
  show "FunctionalGroupResults fn_text (Null :: 'a report_scheme field) sd = Inr no_results"
    by (simp add: FunctionalGroupResults_def)
next
  assume "matches r = Undefined \<or> matches r = Null"
  then show "FunctionalGroupResults fn_text (Val r) sd = Inr no_results"
    by (rule render_no_matches)
next
  assume "matches r = Val []"
  then show "FunctionalGroupResults fn_text (Val r) sd =
            Inr (Element ''ResultsContainer'' [] ([summary []] @ visualization (image_data r)))"
    by (rule render_empty)
next
  assume a: "matches r = Val ms \<and> ms \<noteq> [] \<and> (groups_data r = Undefined \<or> groups_data r = Null)"
  then have "matches r = Val ms" "ms \<noteq> []" "groups_data r = Undefined \<or> groups_data r = Null"
    by simp_all
  then show "FunctionalGroupResults fn_text (Val r) sd = Inl TypeError"
    by (rule render_missing_groups)
next
  assume "map_of gs n = None \<and> n \<notin> set Object_prototype"
  then show "card_of fn_text (Val gs) imgs sd (i, n) =
            Inr (FunctionalGroupCard (no_properties\<lparr>name := Val n\<rparr>)
                   (individual_image fn_text imgs n) (sd i))"
    by (auto simp: card_of_def group_or_fallback_def inherited_group_def Object_prototype_def)
qed

text \<open>
  The report names Alcohol and Ether and has metadata for Alcohol only: the card for
  Ether is the card of \<^verbatim>\<open>{ name: 'Ether' }\<close>. A report with an empty \<^verbatim>\<open>matches\<close> and
  nothing else is rendered as the summary alone.
\<close>

theorem render_fallbacks_witness:
  "FunctionalGroupResults v8_text (Val unknown_group_report) details_closed =
     Inr (Element ''ResultsContainer'' []
            [summary [''Alcohol'', ''Ether''],
             Element ''GroupsGrid'' []
               [FunctionalGroupCard alcohol Undefined False,
                FunctionalGroupCard (no_properties\<lparr>name := Val ''Ether''\<rparr>) Undefined False]])
   \<and> card_of v8_text (Val [(''Alcohol'', alcohol)]) Undefined details_closed (1, ''Ether'') =
       Inr (FunctionalGroupCard (no_properties\<lparr>name := Val ''Ether''\<rparr>) Undefined False)
   \<and> FunctionalGroupResults v8_text (Val bare_empty_report) details_closed =
       Inr (Element ''ResultsContainer'' [] [summary []])
   \<and> FunctionalGroupResults v8_text (Val (bare_empty_report\<lparr>matches := Undefined\<rparr>))
         details_closed = Inr no_results"
proof -
  have a: "map_of [(''Alcohol'', alcohol)] ''Ether'' = None \<and> ''Ether'' \<notin> set Object_prototype"
    by (simp add: Object_prototype_def)
  from render_fallbacks
         [where r = unknown_group_report and gs = "[(''Alcohol'', alcohol)]" and n = "''Ether''"
            and fn_text = v8_text and imgs = Undefined and sd = details_closed and i = 1] a
  have c: "card_of v8_text (Val [(''Alcohol'', alcohol)]) Undefined details_closed (1, ''Ether'') =
       Inr (FunctionalGroupCard (no_properties\<lparr>name := Val ''Ether''\<rparr>) Undefined False)"
    by (simp add: individual_image_def details_closed_def)
  have e: "matches bare_empty_report = Val []" "image_data bare_empty_report = Undefined"
    by (simp_all add: bare_empty_report_def)
  from render_fallbacks
         [where r = bare_empty_report and fn_text = v8_text and sd = details_closed] e
  have b: "FunctionalGroupResults v8_text (Val bare_empty_report) details_closed =
       Inr (Element ''ResultsContainer'' [] [summary []])"
    by simp
  have u: "matches (bare_empty_report\<lparr>matches := Undefined\<rparr>) = Undefined" by simp
  from render_fallbacks
         [where r = "bare_empty_report\<lparr>matches := Undefined\<rparr>" and fn_text = v8_text
            and sd = details_closed] u
  have m: "FunctionalGroupResults v8_text (Val (bare_empty_report\<lparr>matches := Undefined\<rparr>))
         details_closed = Inr no_results"
    by blast
  have "FunctionalGroupResults v8_text (Val unknown_group_report) details_closed =
     Inr (Element ''ResultsContainer'' []
            [summary [''Alcohol'', ''Ether''],
             Element ''GroupsGrid'' []
               [FunctionalGroupCard alcohol Undefined False,
                FunctionalGroupCard (no_properties\<lparr>name := Val ''Ether''\<rparr>) Undefined False]])"
    by (simp add: render_with_groups[where ms = "[''Alcohol'', ''Ether'']"
                    and gs = "[(''Alcohol'', alcohol)]"]
          unknown_group_report_def group_or_fallback_def inherited_group_def
          Object_prototype_def individual_image_def details_closed_def upt_rec)
  with c b m show ?thesis by simp
qed

section \<open>The engine: determinism and overlap resolution\<close>

lemma pattern_of_pattern_matches:
  "m \<in> set (pattern_matches search mol p) \<Longrightarrow> pattern m = pattern_name p"
  by (auto simp: pattern_matches_def split: option.splits)

lemma declaration_order_nth:
  assumes "n \<in> pattern_name ` set cat"
  shows "declaration_order cat n < length cat \<and> pattern_name (cat ! declaration_order cat n) = n"
proof -
  let ?P = "\<lambda>p. pattern_name p \<noteq> n"
  from assms have "\<exists>p\<in>set cat. \<not> ?P p" by auto
  then have "takeWhile ?P cat \<noteq> cat" by (simp only: takeWhile_eq_all_conv) blast
  then have "length (takeWhile ?P cat) \<noteq> length cat"
    by (metis takeWhile_eq_take take_all order_refl)
  with length_takeWhile_le[of ?P cat] have l: "length (takeWhile ?P cat) < length cat"
    by linarith
  from nth_length_takeWhile[OF l] have "\<not> ?P (cat ! length (takeWhile ?P cat))" .
  with l show ?thesis unfolding declaration_order_def by blast
qed

lemma declaration_order_inj:
  assumes "n \<in> pattern_name ` set cat" "n' \<in> pattern_name ` set cat"
    and "declaration_order cat n = declaration_order cat n'"
  shows "n = n'"
  using declaration_order_nth[OF assms(1)] declaration_order_nth[OF assms(2)] assms(3) by metis

lemma filter_unique_length:
  "distinct (map nm xs) \<Longrightarrow> length (filter (\<lambda>p. nm p = n) xs) \<le> 1"
proof (induction xs)
  case Nil then show ?case by simp
next
  case (Cons x xs)
  show ?case
  proof (cases "nm x = n")
    case True
    from Cons.prems have "nm x \<notin> nm ` set xs" by simp
    with True have "\<forall>p\<in>set xs. nm p \<noteq> n" by blast
    then have "filter (\<lambda>p. nm p = n) xs = []" by (simp add: filter_empty_conv)
    with True show ?thesis by simp
  next
    case False
    with Cons show ?thesis by simp
  qed
qed

lemma short_list_by_mset:
  assumes "mset xs = mset ys" "length xs \<le> 1"
  shows "xs = ys"
proof (cases xs)
  case Nil with assms show ?thesis by simp
next
  case (Cons x xs')
  with assms(2) have xs: "xs = [x]" by simp
  with assms(1) have "mset ys = {#x#}" by simp
  then have "ys = [x]" by (simp add: mset_single_iff_right)
  with xs show ?thesis by simp
qed

lemma filter_permuted:
  assumes "distinct (map nm xs)" "mset xs = mset ys"
  shows "filter (\<lambda>p. nm p = n) xs = filter (\<lambda>p. nm p = n) ys"
proof (rule short_list_by_mset)
  from assms(2) show "mset (filter (\<lambda>p. nm p = n) xs) = mset (filter (\<lambda>p. nm p = n) ys)"
    by (simp only: mset_filter)
  from assms(1) show "length (filter (\<lambda>p. nm p = n) xs) \<le> 1" by (rule filter_unique_length)
qed

lemma concat_map_restrict:
  assumes "\<And>p. p \<in> set xs \<Longrightarrow> \<not> Q p \<Longrightarrow> h p = []"
  shows "concat (map h xs) = concat (map h (filter Q xs))"
  using assms by (induction xs) auto

lemma mset_MatchCollector:
  assumes "mset o1 = mset o2"
  shows "mset (MatchCollector search mol o1) = mset (MatchCollector search mol o2)"
proof -
  let ?f = "\<lambda>p. mset (pattern_matches search mol p)"
  have "mset (map ?f o1) = mset (map ?f o2)"
    using assms by (metis mset_map)
  then have "sum_list (map ?f o1) = sum_list (map ?f o2)"
    by (metis sum_mset_sum_list)
  then show ?thesis
    by (simp add: MatchCollector_def mset_concat comp_def)
qed

lemma filter_priority_MatchCollector:
  assumes d: "distinct (map pattern_name cat)"
    and o1: "mset o1 = mset cat" and o2: "mset o2 = mset cat"
    and k: "k \<in> set (MatchCollector search mol o1)"
  shows "filter (\<lambda>x. priority cat k = priority cat x) (MatchCollector search mol o1)
       = filter (\<lambda>x. priority cat k = priority cat x) (MatchCollector search mol o2)"
proof -
  let ?g = "pattern_matches search mol"
  let ?P = "\<lambda>x. priority cat k = priority cat x"
  let ?Q = "\<lambda>p. pattern_name p = pattern k"
  from o1 o2 have s1: "set o1 = set cat" and s2: "set o2 = set cat"
    by (metis mset_eq_setD)+
  from k obtain pk where pk: "pk \<in> set o1" "k \<in> set (?g pk)"
    by (auto simp: MatchCollector_def)
  then have kn: "pattern k \<in> pattern_name ` set cat"
    using pattern_of_pattern_matches s1 by (metis imageI)
  have drop: "filter ?P (?g p) = []" if "p \<in> set cat" "\<not> ?Q p" for p
  proof -
    have "\<not> ?P x" if x: "x \<in> set (?g p)" for x
    proof
      assume e: "priority cat k = priority cat x"
      from x have xp: "pattern x = pattern_name p" by (rule pattern_of_pattern_matches)
      with \<open>p \<in> set cat\<close> have "pattern x \<in> pattern_name ` set cat" by simp
      moreover from e have "declaration_order cat (pattern k) = declaration_order cat (pattern x)"
        by (simp add: priority_def)
      ultimately have "pattern k = pattern x" using kn by (metis declaration_order_inj)
      with xp \<open>\<not> ?Q p\<close> show False by metis
    qed
    then show ?thesis by (simp add: filter_empty_conv)
  qed
  have c: "filter ?P (MatchCollector search mol os)
         = concat (map (\<lambda>p. filter ?P (?g p)) (filter ?Q os))" if "set os = set cat" for os
  proof -
    have "filter ?P (MatchCollector search mol os) = concat (map (\<lambda>p. filter ?P (?g p)) os)"
      by (simp add: MatchCollector_def filter_concat comp_def)
    also have "\<dots> = concat (map (\<lambda>p. filter ?P (?g p)) (filter ?Q os))"
      by (rule concat_map_restrict) (use that drop in blast)
    finally show ?thesis .
  qed
  from d o1 have "distinct (map pattern_name o1)"
    by (metis mset_map mset_eq_imp_distinct_iff)
  with o1 o2 have "filter ?Q o1 = filter ?Q o2"
    by (metis filter_permuted)
  with c[OF s1] c[OF s2] show ?thesis by metis
qed


lemma sorted_MatchCollector:
  assumes d: "distinct (map pattern_name cat)"
    and o1: "mset o1 = mset cat" and o2: "mset o2 = mset cat"
  shows "sort_key (priority cat) (MatchCollector search mol o1)
       = sort_key (priority cat) (MatchCollector search mol o2)"
proof (rule properties_for_sort_key)
  let ?f = "priority cat"
  let ?xs1 = "MatchCollector search mol o1" and ?xs2 = "MatchCollector search mol o2"
  have m: "mset ?xs1 = mset ?xs2" by (rule mset_MatchCollector) (simp only: o1 o2)
  then show "mset (sort_key ?f ?xs2) = mset ?xs1" by simp
  show "sorted (map ?f (sort_key ?f ?xs2))" by simp
  fix k assume "k \<in> set (sort_key ?f ?xs2)"
  then have "k \<in> set ?xs1" using m by (metis mset_eq_setD set_sort)
  from filter_priority_MatchCollector[OF d o1 o2 this]
  have "filter (\<lambda>x. ?f k = ?f x) ?xs1 = filter (\<lambda>x. ?f k = ?f x) ?xs2" .
  moreover have "(\<lambda>x. ?f k = ?f x) = (\<lambda>y. ?f y = ?f k)" by (rule ext) (rule eq_commute)
  then have "filter (\<lambda>x. ?f k = ?f x) (sort_key ?f ?xs2) = filter (\<lambda>x. ?f k = ?f x) ?xs2"
    by (simp only: sort_key_stable)
  ultimately show "filter (\<lambda>x. ?f k = ?f x) (sort_key ?f ?xs2) = filter (\<lambda>x. ?f k = ?f x) ?xs1"
    by simp
qed

lemma report_independent_of_completion_order:
  assumes "distinct (map pattern_name cat)"
    and "mset completed = mset cat" and "mset completed' = mset cat"
  shows "AnalyzeFunctionalGroups cat search render colour completed mol
       = AnalyzeFunctionalGroups cat search render colour completed' mol"
  using sorted_MatchCollector[OF assms, of search mol]
  by (simp only: AnalyzeFunctionalGroups_def OverlapResolver_def)

text \<open>
  Claim C1. For a fixed molecule and a fixed catalog (with unique names), the ordered list
  of group names of the report does not depend on the order in which the per-pattern
  evaluations complete: any two completion orders of the catalog's patterns give the same
  \<^verbatim>\<open>matches\<close>. (The analysis is a function, so two invocations with the same completion
  order agree as well.)
\<close>

theorem matches_independent_of_completion_order:
  assumes "distinct (map pattern_name cat)"
    and "mset completed = mset cat" and "mset completed' = mset cat"
  shows "matches (AnalyzeFunctionalGroups cat search render colour completed mol)
       = matches (AnalyzeFunctionalGroups cat search render colour completed' mol)"
  using report_independent_of_completion_order[OF assms, of search render colour mol]
  by (simp only:)

lemma acetic_matches:
  "MatchCollector acetic_search ''CC(=O)O'' acetic_catalog = [carbonyl_match, acid_match]"
  "MatchCollector acetic_search ''CC(=O)O'' (rev acetic_catalog) = [acid_match, carbonyl_match]"
  by (simp_all add: MatchCollector_def pattern_matches_def evaluate_pattern_def
        acetic_search_def acetic_catalog_def carbonyl_match_def acid_match_def insert_commute)

lemma acetic_resolved:
  "OverlapResolver acetic_catalog [carbonyl_match, acid_match] = [acid_match]"
  "OverlapResolver acetic_catalog [acid_match, carbonyl_match] = [acid_match]"
  by (simp_all add: OverlapResolver_def priority_def presentation_def lowest_def rank_of_def
        is_generic_def conflict_def nesting_permits_def declaration_order_def lookup_def
        acetic_catalog_def carbonyl_match_def acid_match_def)

text \<open>Acetic acid, with the two patterns completing in catalog order and in reverse.\<close>

theorem matches_independent_of_completion_order_witness:
  "distinct (map pattern_name acetic_catalog)
   \<and> mset (rev acetic_catalog) = mset acetic_catalog
   \<and> matches (AnalyzeFunctionalGroups acetic_catalog acetic_search render_png palette
                 acetic_catalog ''CC(=O)O'') = Val [''Carboxylic acid'']
   \<and> matches (AnalyzeFunctionalGroups acetic_catalog acetic_search render_png palette
                 (rev acetic_catalog) ''CC(=O)O'') = Val [''Carboxylic acid'']"
proof -
  have d: "distinct (map pattern_name acetic_catalog)" by (simp add: acetic_catalog_def)
  have m: "mset (rev acetic_catalog) = mset acetic_catalog" by simp
  have a: "matches (AnalyzeFunctionalGroups acetic_catalog acetic_search render_png palette
                 acetic_catalog ''CC(=O)O'') = Val [''Carboxylic acid'']"
    by (simp add: AnalyzeFunctionalGroups_def ResultAssembler_def acetic_matches
          acetic_resolved) (simp add: acid_match_def)
  from matches_independent_of_completion_order[OF d refl m, of acetic_search render_png palette
         "''CC(=O)O''"] a d m
  show ?thesis by simp
qed

section \<open>The engine: the nesting rule\<close>














text \<open>
  Pyridine: the ring pattern is generic, of lower rank, and its atoms contain the atom
  of the nitrogen pattern. Only the nitrogen match is resolved.
\<close>

lemma pyridine_resolved:
  "OverlapResolver pyridine_catalog [ring_match, nitrogen_match] = [nitrogen_match]"
  "OverlapResolver pyridine_catalog [nitrogen_match, ring_match] = [nitrogen_match]"
  by (simp_all add: OverlapResolver_def priority_def presentation_def lowest_def rank_of_def
        is_generic_def conflict_def nesting_permits_def declaration_order_def lookup_def
        pyridine_catalog_def nitrogen_match_def ring_match_def)



section \<open>The engine: the report it assembles\<close>

text \<open>
  This section is about the model of the absent backend only: what it returns when
  nothing matches, when rendering fails, and the four parts of its report.
\<close>

lemma engine_empty_case:
  assumes "\<forall>p\<in>set completed. pattern_matches search mol p = []"
  shows "AnalyzeFunctionalGroups cat search render colour completed mol =
     \<lparr>matches = Val [], groups_data = Val [],
      image_data = (case render mol [] of Some img \<Rightarrow> Val img | None \<Rightarrow> Undefined),
      individual_images = Val []\<rparr>"
proof -
  from assms have "MatchCollector search mol completed = []"
    by (simp add: MatchCollector_def)
  then show ?thesis
    by (simp add: AnalyzeFunctionalGroups_def OverlapResolver_def ResultAssembler_def
          highlights_def List.map_filter_simps)
qed

lemma engine_render_failure:
  "matches (AnalyzeFunctionalGroups cat search render colour completed mol) =
     matches (AnalyzeFunctionalGroups cat search render' colour completed mol)
   \<and> groups_data (AnalyzeFunctionalGroups cat search render colour completed mol) =
     groups_data (AnalyzeFunctionalGroups cat search render' colour completed mol)
   \<and> ((\<forall>hs. render mol hs = None) \<longrightarrow>
        image_data (AnalyzeFunctionalGroups cat search render colour completed mol) = Undefined
        \<and> individual_images (AnalyzeFunctionalGroups cat search render colour completed mol)
            = Val [])"
  by (simp add: AnalyzeFunctionalGroups_def ResultAssembler_def List.map_filter_def)

lemma map_of_metadata:
  "map_of (List.map_filter (\<lambda>n. map_option (\<lambda>p. (n, g p)) (h n)) ns) n =
     (if n \<in> set ns then map_option g (h n) else None)"
  by (induction ns) (auto simp: List.map_filter_simps split: option.splits)

lemma map_of_images:
  "map_of (List.map_filter (\<lambda>n. map_option (\<lambda>v. (n, v)) (h n)) ns) n =
     (if n \<in> set ns then h n else None)"
  by (induction ns) (auto simp: List.map_filter_simps split: option.splits)

text \<open>
  Claim C3. The result of \<^verbatim>\<open>AnalyzeFunctionalGroups\<close> is a report of four parts, and
  these are: \<^verbatim>\<open>matches\<close>, the names of the resolved matches in their presentation
  order; \<^verbatim>\<open>groups_data\<close>, which maps exactly the names in \<^verbatim>\<open>matches\<close> that the catalog
  has, each to the metadata of its catalog entry; \<^verbatim>\<open>image\<close>, the rendering of the
  molecule with all resolved atom sets highlighted (left out when the renderer fails);
  \<^verbatim>\<open>individual_images\<close>, which maps exactly the names in \<^verbatim>\<open>matches\<close>, each to the
  rendering with the atom sets of that group only (a name whose rendering fails is left
  out). The engine has no error path: every call returns such a report.
\<close>

theorem analysis_returns_four_parts:
  "\<exists>names gs imgs.
     AnalyzeFunctionalGroups cat search render colour completed mol =
       \<lparr>matches = Val names,
        groups_data = Val gs,
        image_data =
          (case render mol (highlights colour
                  (OverlapResolver cat (MatchCollector search mol completed))) of
             Some img \<Rightarrow> Val img
           | None \<Rightarrow> Undefined),
        individual_images = Val imgs\<rparr>
   \<and> names = map pattern (OverlapResolver cat (MatchCollector search mol completed))
   \<and> (\<forall>n. map_of gs n =
         (if n \<in> set names then map_option metadata (lookup cat n) else None))
   \<and> (\<forall>n. map_of imgs n =
         (if n \<in> set names
          then render mol (highlights colour
                 (filter (\<lambda>m. pattern m = n)
                    (OverlapResolver cat (MatchCollector search mol completed))))
          else None))"
proof -
  let ?res = "OverlapResolver cat (MatchCollector search mol completed)"
  let ?rep = "AnalyzeFunctionalGroups cat search render colour completed mol"
  let ?gs = "List.map_filter (\<lambda>n. map_option (\<lambda>p. (n, metadata p)) (lookup cat n))
               (remdups (map pattern ?res))"
  let ?imgs = "List.map_filter
                 (\<lambda>n. map_option (\<lambda>img. (n, img))
                        (render mol (highlights colour (filter (\<lambda>m. pattern m = n) ?res))))
                 (remdups (map pattern ?res))"
  have 1: "?rep =
       \<lparr>matches = Val (map pattern ?res), groups_data = Val ?gs,
        image_data =
          (case render mol (highlights colour ?res) of Some img \<Rightarrow> Val img | None \<Rightarrow> Undefined),
        individual_images = Val ?imgs\<rparr>"
    by (simp add: AnalyzeFunctionalGroups_def ResultAssembler_def)
  have 2: "\<forall>n. map_of ?gs n =
         (if n \<in> set (map pattern ?res) then map_option metadata (lookup cat n) else None)"
    by (simp add: map_of_metadata)
  have 3: "\<forall>n. map_of ?imgs n =
         (if n \<in> set (map pattern ?res)
          then render mol (highlights colour (filter (\<lambda>m. pattern m = n) ?res))
          else None)"
    using map_of_images[of "\<lambda>n. render mol (highlights colour (filter (\<lambda>m. pattern m = n) ?res))"
            "remdups (map pattern ?res)"]
    by simp
  from 1 2 3 show ?thesis by blast
qed

text \<open>
  Acetic acid with a renderer that returns an image: the report names the carboxylic
  acid, with its metadata, the combined image and the image of the group.
\<close>

theorem analysis_returns_four_parts_witness:
  "AnalyzeFunctionalGroups acetic_catalog acetic_search render_png palette acetic_catalog
     ''CC(=O)O'' =
     \<lparr>matches = Val [''Carboxylic acid''],
      groups_data =
        Val [(''Carboxylic acid'', no_properties\<lparr>name := Val ''Carboxylic acid''\<rparr>)],
      image_data = Val ''iVBORw0KGgo='',
      individual_images = Val [(''Carboxylic acid'', ''iVBORw0KGgo='')]\<rparr>"
proof -
  have r: "OverlapResolver acetic_catalog
             (MatchCollector acetic_search ''CC(=O)O'' acetic_catalog) = [acid_match]"
    by (simp add: acetic_matches acetic_resolved)
  have l: "lookup acetic_catalog ''Carboxylic acid'' =
             Some \<lparr>pattern_name = ''Carboxylic acid'', primary = ''[CH3][CX3](=O)[OX2H1]'',
                   fallback = None, specificity_rank = 2, generic = False,
                   metadata = no_properties\<lparr>name := Val ''Carboxylic acid''\<rparr>\<rparr>"
    by (simp add: lookup_def acetic_catalog_def)
  from analysis_returns_four_parts[of acetic_catalog acetic_search render_png palette
         acetic_catalog "''CC(=O)O''"]
  obtain names gs imgs where
    rep: "AnalyzeFunctionalGroups acetic_catalog acetic_search render_png palette acetic_catalog
            ''CC(=O)O'' =
          \<lparr>matches = Val names, groups_data = Val gs, image_data = Val ''iVBORw0KGgo='',
           individual_images = Val imgs\<rparr>"
    and names: "names = [''Carboxylic acid'']"
    unfolding r by (auto simp: render_png_def acid_match_def)
  have "groups_data (AnalyzeFunctionalGroups acetic_catalog acetic_search render_png palette
          acetic_catalog ''CC(=O)O'') =
        Val [(''Carboxylic acid'', no_properties\<lparr>name := Val ''Carboxylic acid''\<rparr>)]"
    by (simp add: AnalyzeFunctionalGroups_def ResultAssembler_def r List.map_filter_simps)
       (simp add: acid_match_def l)
  moreover have "individual_images (AnalyzeFunctionalGroups acetic_catalog acetic_search
          render_png palette acetic_catalog ''CC(=O)O'') =
        Val [(''Carboxylic acid'', ''iVBORw0KGgo='')]"
    by (simp add: AnalyzeFunctionalGroups_def ResultAssembler_def r List.map_filter_simps)
       (simp add: acid_match_def render_png_def)
  ultimately show ?thesis using rep names by simp
qed

text \<open>
  Methane with a search that finds nothing, and acetic acid with a renderer that always
  fails.
\<close>

lemma engine_empty_example:
  "AnalyzeFunctionalGroups acetic_catalog no_match_search render_fails palette acetic_catalog
     ''C'' = empty_report"
  by (simp add: engine_empty_case pattern_matches_def evaluate_pattern_def no_match_search_def
        render_fails_def empty_report_def)

lemma engine_render_failure_example:
  "AnalyzeFunctionalGroups acetic_catalog acetic_search render_fails palette acetic_catalog
     ''CC(=O)O'' =
     \<lparr>matches = Val [''Carboxylic acid''],
      groups_data =
        Val [(''Carboxylic acid'', no_properties\<lparr>name := Val ''Carboxylic acid''\<rparr>)],
      image_data = Undefined,
      individual_images = Val []\<rparr>"
  by (simp add: AnalyzeFunctionalGroups_def ResultAssembler_def acetic_matches acetic_resolved
        render_fails_def List.map_filter_simps)
     (simp add: acid_match_def lookup_def acetic_catalog_def)

end
